theory Spec2Isabelle
  imports Complex_Main
begin

section \<open>JavaScript values of numeric fields\<close>

text \<open>
  The backend client returns untyped records, so a field that the TypeScript interfaces
  declare as \<open>number\<close> can hold, at run time, a number, \<open>null\<close> (a stored null) or
  \<open>undefined\<close> (an absent property). \<open>NaN\<close> is what the arithmetic of the pages makes
  of \<open>undefined\<close>. Finite numbers are the rationals they denote: the pages only compare
  them, take \<open>Math.floor\<close> and \<open>Math.max\<close>, and all of these are exact on doubles.
  Infinities cannot come out of a JSON record and are left out.
\<close>

datatype jsval = Num rat | NaN | Null | Undefined

text \<open>\<open>ToNumber\<close>: \<open>null\<close> is \<open>0\<close>, \<open>undefined\<close> is \<open>NaN\<close>.\<close>

fun toNumber :: "jsval \<Rightarrow> jsval" where
  "toNumber (Num r) = Num r"
| "toNumber NaN = NaN"
| "toNumber Null = Num 0"
| "toNumber Undefined = NaN"

text \<open>Truthiness: \<open>0\<close>, \<open>NaN\<close>, \<open>null\<close> and \<open>undefined\<close> are falsy.\<close>

fun truthy :: "jsval \<Rightarrow> bool" where
  "truthy (Num r) = (r \<noteq> 0)"
| "truthy NaN = False"
| "truthy Null = False"
| "truthy Undefined = False"

text \<open>\<open>a || b\<close>\<close>

definition orElse :: "jsval \<Rightarrow> jsval \<Rightarrow> jsval" where
  "orElse a b = (if truthy a then a else b)"

text \<open>\<open>a < b\<close>: both sides through \<open>ToNumber\<close>; false as soon as one of them is \<open>NaN\<close>.\<close>

definition less_js :: "jsval \<Rightarrow> jsval \<Rightarrow> bool" where
  "less_js a b = (case (toNumber a, toNumber b) of (Num x, Num y) \<Rightarrow> x < y | _ \<Rightarrow> False)"

text \<open>\<open>a >= b\<close>\<close>

definition greaterEq :: "jsval \<Rightarrow> jsval \<Rightarrow> bool" where
  "greaterEq a b = (case (toNumber a, toNumber b) of (Num x, Num y) \<Rightarrow> y \<le> x | _ \<Rightarrow> False)"

text \<open>\<open>a === b\<close>: no coercion; \<open>NaN\<close> equals nothing, itself included.\<close>

fun strictEq :: "jsval \<Rightarrow> jsval \<Rightarrow> bool" where
  "strictEq (Num x) (Num y) = (x = y)"
| "strictEq Null Null = True"
| "strictEq Undefined Undefined = True"
| "strictEq _ _ = False"

text \<open>\<open>Math.floor(v)\<close>\<close>

definition mathFloor :: "jsval \<Rightarrow> jsval" where
  "mathFloor v = (case toNumber v of Num r \<Rightarrow> Num (of_int \<lfloor>r\<rfloor>) | _ \<Rightarrow> NaN)"

text \<open>
  \<open>Math.max(v, ...vs)\<close> on a non-empty argument list: every argument goes through
  \<open>ToNumber\<close>, and one \<open>NaN\<close> makes the result \<open>NaN\<close>. The call without arguments
  (\<open>-Infinity\<close>) never happens: \<open>getHighestRating\<close> returns before it.
\<close>

definition max2 :: "jsval \<Rightarrow> jsval \<Rightarrow> jsval" where
  "max2 a b = (case (toNumber a, toNumber b) of (Num x, Num y) \<Rightarrow> Num (max x y) | _ \<Rightarrow> NaN)"

definition mathMax :: "jsval \<Rightarrow> jsval list \<Rightarrow> jsval" where
  "mathMax v vs = foldl max2 (toNumber v) vs"


section \<open>Records of the backend and of the views\<close>

text \<open>
  A record of the \<open>schools\<close> collection as \<open>blink.db.schools.list\<close> returns it
  (snake case). Identity and descriptive fields are strings, optional texts may be
  missing, numeric fields are nullable. The fields that the views also have under the
  same name carry the prefix \<open>raw_\<close> here.
\<close>

record raw_school =
  raw_id :: string
  raw_name :: string
  raw_address :: string
  raw_city :: string
  raw_state :: string
  raw_phone :: "string option"
  raw_website :: "string option"
  school_type :: string
  grade_levels :: string
  overall_rating :: jsval
  academics_rating :: jsval
  facilities_rating :: jsval
  teachers_rating :: jsval
  safety_rating :: jsval
  extracurriculars_rating :: jsval
  total_reviews :: jsval
  image_url :: "string option"

text \<open>
  \<open>interface School\<close>: the fields that the interfaces of SearchPage.tsx, of the home
  page and of ComparePage.tsx share (\<open>id\<close> is \<open>school_id\<close>), then what each view adds.
\<close>

record school =
  school_id :: string
  name :: string
  address :: string
  city :: string
  state :: string
  schoolType :: string
  gradeLevels :: string
  overallRating :: jsval
  totalReviews :: jsval

record search_school = school +
  imageUrl :: "string option"

record compare_school = school +
  phone :: "string option"
  website :: "string option"
  academicsRating :: jsval
  facilitiesRating :: jsval
  teachersRating :: jsval
  safetyRating :: jsval
  extracurricularsRating :: jsval


section \<open>Result mappers\<close>

text \<open>SearchPage.tsx, \<open>searchSchools\<close>, the callback of \<open>results.map\<close> (lines 107-118).\<close>

definition mapSchool_search :: "raw_school \<Rightarrow> search_school" where
  "mapSchool_search school =
     \<lparr> school_id = raw_id school,
       name = raw_name school,
       address = raw_address school,
       city = raw_city school,
       state = raw_state school,
       schoolType = school_type school,
       gradeLevels = grade_levels school,
       overallRating = orElse (overall_rating school) (Num 0),
       totalReviews = orElse (total_reviews school) (Num 0),
       imageUrl = image_url school \<rparr>"

text \<open>The home page, \<open>loadFeaturedSchools\<close>, the callback of \<open>schools.map\<close>.\<close>

definition mapSchool_home :: "raw_school \<Rightarrow> search_school" where
  "mapSchool_home school =
     \<lparr> school_id = raw_id school,
       name = raw_name school,
       address = raw_address school,
       city = raw_city school,
       state = raw_state school,
       schoolType = school_type school,
       gradeLevels = grade_levels school,
       overallRating = overall_rating school,
       totalReviews = total_reviews school,
       imageUrl = image_url school \<rparr>"

text \<open>ComparePage.tsx, \<open>searchSchools\<close>, the callback of \<open>results.map\<close> (lines 60-77).\<close>

definition mapSchool_compare :: "raw_school \<Rightarrow> compare_school" where
  "mapSchool_compare school =
     \<lparr> school_id = raw_id school,
       name = raw_name school,
       address = raw_address school,
       city = raw_city school,
       state = raw_state school,
       schoolType = school_type school,
       gradeLevels = grade_levels school,
       overallRating = overall_rating school,
       totalReviews = total_reviews school,
       phone = raw_phone school,
       website = raw_website school,
       academicsRating = academics_rating school,
       facilitiesRating = facilities_rating school,
       teachersRating = teachers_rating school,
       safetyRating = safety_rating school,
       extracurricularsRating = extracurriculars_rating school \<rparr>"


section \<open>Query builder of the search page\<close>

text \<open>
  \<open>String.prototype.trim\<close>. A \<open>char\<close> stands for a code unit below 256; the white
  space among them is tab, line feed, vertical tab, form feed, carriage return, space
  and the no-break space.
\<close>

definition isWhiteSpace :: "char \<Rightarrow> bool" where
  "isWhiteSpace c = (c \<in> {CHR 0x09, CHR 0x0A, CHR 0x0B, CHR 0x0C, CHR 0x0D, CHR 0x20, CHR 0xA0})"

definition trim :: "string \<Rightarrow> string" where
  "trim s = rev (dropWhile isWhiteSpace (rev (dropWhile isWhiteSpace s)))"

text \<open>\<open>interface Filters\<close> (its \<open>schoolType\<close> is \<open>schoolType_f\<close>: a school has the name too).\<close>

record filters =
  schoolType_f :: "string list"
  gradeLevel :: string
  minRating :: rat
  sortBy :: string

text \<open>
  The argument of \<open>blink.db.schools.list\<close>. A condition on one field is
  \<open>{ contains: s }\<close>, \<open>{ in: xs }\<close> or \<open>{ gte: r }\<close>; the value under a key of the
  \<open>where\<close> object is such a condition, or, under \<open>OR\<close>, an array of one-field objects.
  The \<open>where\<close> object is the list of its keys with their values, in the order of
  assignment (each key is assigned at most once).
\<close>

datatype cond = Contains string | In "string list" | Gte rat

datatype clause = Cond cond | AnyOf "(string \<times> cond) list"

type_synonym where_object = "(string \<times> clause) list"

datatype direction = Asc | Desc

record list_query =
  whereArg :: "where_object option"
  orderBy :: "string \<times> direction"
  limit :: nat

text \<open>SearchPage.tsx, \<open>searchSchools\<close>, lines 59-83: the \<open>whereClause\<close> object.\<close>

definition whereClause :: "string \<Rightarrow> filters \<Rightarrow> where_object" where
  "whereClause searchQuery f =
     (if trim searchQuery \<noteq> []
      then [(''OR'', AnyOf [(''name'', Contains searchQuery),
                           (''city'', Contains searchQuery),
                           (''address'', Contains searchQuery)])]
      else [])
     @ (if length (schoolType_f f) > 0
        then [(''school_type'', Cond (In (schoolType_f f)))] else [])
     @ (if gradeLevel f \<noteq> []
        then [(''grade_levels'', Cond (Contains (gradeLevel f)))] else [])
     @ (if minRating f > 0
        then [(''overall_rating'', Cond (Gte (minRating f)))] else [])"

text \<open>Lines 86-99: the \<open>switch\<close> on \<open>filters.sortBy\<close>.\<close>

definition sortOrder :: "string \<Rightarrow> string \<times> direction" where
  "sortOrder s =
     (if s = ''rating'' then (''overall_rating'', Desc)
      else if s = ''reviews'' then (''total_reviews'', Desc)
      else if s = ''name'' then (''name'', Asc)
      else (''overall_rating'', Desc))"

text \<open>Lines 101-105: the query that the search page issues.\<close>

definition searchRequest :: "string \<Rightarrow> filters \<Rightarrow> list_query" where
  "searchRequest searchQuery f =
     \<lparr> whereArg = (if length (whereClause searchQuery f) > 0
                   then Some (whereClause searchQuery f) else None),
       orderBy = sortOrder (sortBy f),
       limit = 50 \<rparr>"


section \<open>The search page\<close>

text \<open>
  The state of \<open>SearchPage\<close> (its \<open>useState\<close> cells; the names that the compare page
  also uses carry the suffix \<open>_s\<close>).
\<close>

record search_page =
  searchQuery_s :: string
  schools :: "search_school list"
  loading_s :: bool
  showFilters :: bool
  filters_s :: filters

text \<open>A rejected promise of the backend client.\<close>

datatype error = BackendError string

type_synonym response = "error + raw_school list"

text \<open>
  \<open>searchSchools\<close> (lines 56-124) is an async function. It runs up to the \<open>await\<close>
  (\<open>setLoading(true)\<close>, then the request built from the query and filters it closed
  over), and later from the \<open>await\<close> on, with the response: the mapped records are
  stored on success, the \<open>catch\<close> only logs, the \<open>finally\<close> clears \<open>loading\<close>.
\<close>

definition searchSchools_begin_s :: "search_page \<Rightarrow> search_page" where
  "searchSchools_begin_s st = st\<lparr>loading_s := True\<rparr>"

text \<open>The request of a \<open>searchSchools\<close> that closed over the render state \<open>rs\<close>.\<close>

definition searchSchools_query_s :: "search_page \<Rightarrow> list_query" where
  "searchSchools_query_s rs = searchRequest (searchQuery_s rs) (filters_s rs)"

definition searchSchools_end_s :: "response \<Rightarrow> search_page \<Rightarrow> search_page" where
  "searchSchools_end_s resp st =
     (case resp of
        Inr results \<Rightarrow> st\<lparr>schools := map mapSchool_search results, loading_s := False\<rparr>
      | Inl e \<Rightarrow> st\<lparr>loading_s := False\<rparr>)"

text \<open>What a result area shows (SearchPage.tsx lines 336-372, ComparePage.tsx 180-225).\<close>

datatype 'a view = Hidden | Searching | NoSchoolsFound | Results "'a list"

fun shown :: "'a view \<Rightarrow> 'a list" where
  "shown (Results xs) = xs"
| "shown _ = []"

definition resultArea_s :: "search_page \<Rightarrow> search_school view" where
  "resultArea_s st =
     (if loading_s st then Searching
      else if length (schools st) = 0 then NoSchoolsFound
      else Results (schools st))"


section \<open>The compare page\<close>

record compare_page =
  selectedSchools :: "compare_school list"
  searchQuery :: string
  searchResults :: "compare_school list"
  loading :: bool
  showSearch :: bool

text \<open>
  \<open>searchSchools\<close> (lines 40-87). The function closes over the state \<open>rs\<close> of the render
  that created it and reads \<open>searchQuery\<close> and \<open>selectedSchools\<close> from there; what it
  sets, it sets in the state \<open>st\<close> current at that moment. Up to the \<open>await\<close>: an empty
  trimmed query clears the results and returns, otherwise \<open>loading\<close> is set and the
  request goes out. From the \<open>await\<close> on: the mapped records that are not selected (in
  \<open>rs\<close>) are stored; the \<open>catch\<close> only logs; the \<open>finally\<close> clears \<open>loading\<close>.
\<close>

definition searchSchools_query :: "compare_page \<Rightarrow> list_query option" where
  "searchSchools_query rs =
     (if trim (searchQuery rs) = [] then None
      else Some \<lparr> whereArg = Some [(''OR'', AnyOf [(''name'', Contains (searchQuery rs)),
                                                   (''city'', Contains (searchQuery rs)),
                                                   (''address'', Contains (searchQuery rs))])],
                  orderBy = (''overall_rating'', Desc),
                  limit = 10 \<rparr>)"

definition searchSchools_begin :: "compare_page \<Rightarrow> compare_page \<Rightarrow> compare_page" where
  "searchSchools_begin rs st =
     (if trim (searchQuery rs) = [] then st\<lparr>searchResults := []\<rparr>
      else st\<lparr>loading := True\<rparr>)"

definition searchSchools_end :: "compare_page \<Rightarrow> response \<Rightarrow> compare_page \<Rightarrow> compare_page" where
  "searchSchools_end rs resp st =
     (case resp of
        Inr results \<Rightarrow>
          st\<lparr>searchResults :=
               filter (\<lambda>school. \<not> list_ex (\<lambda>selected. school_id selected = school_id school)
                                        (selectedSchools rs))
                 (map mapSchool_compare results),
             loading := False\<rparr>
      | Inl e \<Rightarrow> st\<lparr>loading := False\<rparr>)"

text \<open>\<open>addSchool\<close> (lines 98-105) and \<open>removeSchool\<close> (lines 107-109).\<close>

definition addSchool :: "compare_school \<Rightarrow> compare_page \<Rightarrow> compare_page" where
  "addSchool school st =
     (if length (selectedSchools st) < 4
         \<and> \<not> list_ex (\<lambda>s. school_id s = school_id school) (selectedSchools st)
      then st\<lparr>selectedSchools := selectedSchools st @ [school],
              searchResults := filter (\<lambda>s. school_id s \<noteq> school_id school) (searchResults st),
              searchQuery := [],
              showSearch := False\<rparr>
      else st)"

definition removeSchool :: "string \<Rightarrow> compare_page \<Rightarrow> compare_page" where
  "removeSchool schoolId st =
     st\<lparr>selectedSchools := filter (\<lambda>s. school_id s \<noteq> schoolId) (selectedSchools st)\<rparr>"

text \<open>The \<open>onChange\<close> of the input (lines 169-172).\<close>

definition onChange :: "string \<Rightarrow> compare_page \<Rightarrow> compare_page" where
  "onChange text st = st\<lparr>searchQuery := text, showSearch := True\<rparr>"

text \<open>The result list under the input (lines 160, 180-225).\<close>

definition resultArea :: "compare_page \<Rightarrow> compare_school view" where
  "resultArea st =
     (if length (selectedSchools st) < 4 \<and> showSearch st \<and> searchQuery st \<noteq> []
      then (if loading st then Searching
            else if length (searchResults st) = 0 then NoSchoolsFound
            else Results (searchResults st))
      else Hidden)"


subsection \<open>Handlers, the debounce timer and requests in flight\<close>

text \<open>
  The component at run time: its state, the pending debounce timer and the requests
  that have not been answered yet. The effect of lines 89-96 depends on \<open>searchQuery\<close>
  alone: a render in which \<open>searchQuery\<close> has changed cancels the pending timer and
  starts a new one, whose callback is the \<open>searchSchools\<close> of that render. So a timer
  and a request in flight are each represented by the render state they closed over.
  Nothing cancels a request in flight, and responses may arrive in any order.
\<close>

record runtime =
  page :: compare_page
  timer :: "compare_page option"
  inflight :: "compare_page list"

datatype event =
    Typed string
  | Focused
  | ClickedOutside
  | ClickedResult compare_school
  | ClickedRemove string
  | TimerFired
  | Responded nat response

text \<open>A handler has produced the state \<open>st'\<close>: the component renders again.\<close>

definition rerender :: "compare_page \<Rightarrow> runtime \<Rightarrow> runtime" where
  "rerender st' m =
     m\<lparr>page := st',
       timer := (if searchQuery st' \<noteq> searchQuery (page m) then Some st' else timer m)\<rparr>"

fun step :: "event \<Rightarrow> runtime \<Rightarrow> runtime" where
  "step (Typed text) m = rerender (onChange text (page m)) m"
| "step Focused m = rerender ((page m)\<lparr>showSearch := True\<rparr>) m"
| "step ClickedOutside m = rerender ((page m)\<lparr>showSearch := False\<rparr>) m"
| "step (ClickedResult school) m = rerender (addSchool school (page m)) m"
| "step (ClickedRemove schoolId) m = rerender (removeSchool schoolId (page m)) m"
| "step TimerFired m =
     (case timer m of
        None \<Rightarrow> m
      | Some rs \<Rightarrow>
          m\<lparr>page := searchSchools_begin rs (page m),
            timer := None,
            inflight := (if searchSchools_query rs = None then inflight m
                         else inflight m @ [rs])\<rparr>)"
| "step (Responded k resp) m =
     (if k < length (inflight m)
      then m\<lparr>page := searchSchools_end (inflight m ! k) resp (page m),
             inflight := take k (inflight m) @ drop (Suc k) (inflight m)\<rparr>
      else m)"

fun run :: "event list \<Rightarrow> runtime \<Rightarrow> runtime" where
  "run [] m = m"
| "run (e # es) m = run es (step e m)"

text \<open>The component as mounted: the effect of the first render has started its timer.\<close>

definition initial_page :: compare_page where
  "initial_page =
     \<lparr> selectedSchools = [], searchQuery = [], searchResults = [],
       loading = False, showSearch = False \<rparr>"

definition mounted :: runtime where
  "mounted = \<lparr> page = initial_page, timer = Some initial_page, inflight = [] \<rparr>"

text \<open>
  A run is fenced when each response arrives while every selected school was already
  selected in the render that its request closed over: no school has been added between
  the scheduling of the search and its answer.
\<close>

fun fenced :: "event list \<Rightarrow> runtime \<Rightarrow> bool" where
  "fenced [] m = True"
| "fenced (Responded k resp # es) m =
     ((k < length (inflight m) \<and>
        list_all (\<lambda>s. list_ex (\<lambda>c. school_id c = school_id s) (selectedSchools (inflight m ! k)))
          (selectedSchools (page m)))
      \<and> fenced es (step (Responded k resp) m))"
| "fenced (e # es) m = fenced es (step e m)"


subsection \<open>Invariants of the compare page\<close>

text \<open>The comparison set: at most four schools, no id twice.\<close>

definition bounded_distinct :: "compare_school list \<Rightarrow> bool" where
  "bounded_distinct xs = (length xs \<le> 4 \<and> distinct (map school_id xs))"

text \<open>No stored search result has the id of a selected school.\<close>

definition results_fresh :: "compare_page \<Rightarrow> bool" where
  "results_fresh st =
     (\<forall>s \<in> set (searchResults st). school_id s \<notin> school_id ` set (selectedSchools st))"


section \<open>Rating renderer\<close>

text \<open>
  The three class strings of a star: \<open>text-accent fill-accent\<close> (full),
  \<open>text-accent fill-accent/50\<close> (half), \<open>text-muted-foreground\<close> (empty).
\<close>

datatype glyph = Full | Half | Empty

text \<open>\<open>renderStars\<close> of ComparePage.tsx (lines 111-124); the home page has the same.\<close>

definition renderStars :: "jsval \<Rightarrow> glyph list" where
  "renderStars rating =
     map (\<lambda>i. if less_js (Num (of_nat i)) (mathFloor rating) then Full
              else if less_js (Num (of_nat i)) rating then Half
              else Empty) [0..<5]"

text \<open>\<open>renderStars\<close> of SearchPage.tsx (lines 153-167), with \<open>safeRating\<close>.\<close>

definition renderStars_s :: "jsval \<Rightarrow> glyph list" where
  "renderStars_s rating =
     (let safeRating = orElse rating (Num 0) in
      map (\<lambda>i. if less_js (Num (of_nat i)) (mathFloor safeRating) then Full
               else if less_js (Num (of_nat i)) safeRating then Half
               else Empty) [0..<5])"


section \<open>Comparison engine\<close>

text \<open>The keys of \<open>School\<close> that \<open>getHighestRating\<close> is called with, and \<open>school[category]\<close>.\<close>

datatype category =
    OverallRating | AcademicsRating | TeachersRating
  | FacilitiesRating | SafetyRating | ExtracurricularsRating

fun lookup :: "category \<Rightarrow> compare_school \<Rightarrow> jsval" where
  "lookup OverallRating school = overallRating school"
| "lookup AcademicsRating school = academicsRating school"
| "lookup TeachersRating school = teachersRating school"
| "lookup FacilitiesRating school = facilitiesRating school"
| "lookup SafetyRating school = safetyRating school"
| "lookup ExtracurricularsRating school = extracurricularsRating school"

text \<open>\<open>getHighestRating\<close> (lines 134-137), of the state's \<open>selectedSchools\<close>.\<close>

fun getHighestRating :: "category \<Rightarrow> compare_school list \<Rightarrow> jsval" where
  "getHighestRating c [] = Num 0"
| "getHighestRating c (s # ss) = mathMax (lookup c s) (map (lookup c) ss)"

text \<open>\<open>getRatingColor\<close> (lines 126-132).\<close>

definition getRatingColor :: "jsval \<Rightarrow> string" where
  "getRatingColor rating =
     (if greaterEq rating (Num (9 / 2)) then ''text-green-600''
      else if greaterEq rating (Num 4) then ''text-green-500''
      else if greaterEq rating (Num (7 / 2)) then ''text-yellow-500''
      else if greaterEq rating (Num 3) then ''text-orange-500''
      else ''text-red-500'')"

text \<open>
  A rating cell of the comparison table (lines 319-408): the test of the conditional
  that styles the cell, and the class it gets.
\<close>

definition isHighest :: "category \<Rightarrow> compare_school list \<Rightarrow> compare_school \<Rightarrow> bool" where
  "isHighest c selected school = strictEq (lookup c school) (getHighestRating c selected)"

definition cellClass :: "category \<Rightarrow> compare_school list \<Rightarrow> compare_school \<Rightarrow> string" where
  "cellClass c selected school =
     (if isHighest c selected school then ''text-green-600''
      else getRatingColor (lookup c school))"

text \<open>
  A rating row of the table: the classes of its cells, one per selected school. The
  table is rendered only when more than one school is selected (line 267).
\<close>

definition ratingRow :: "category \<Rightarrow> compare_school list \<Rightarrow> string list option" where
  "ratingRow c selected =
     (if length selected > 1 then Some (map (cellClass c selected) selected) else None)"


section \<open>Example data\<close>

text \<open>A backend record with the given id, name and ratings, and its school in the compare page.\<close>

definition raw_example :: "string \<Rightarrow> string \<Rightarrow> jsval \<Rightarrow> raw_school" where
  "raw_example i n r =
     \<lparr> raw_id = i, raw_name = n, raw_address = ''1 Main Street'', raw_city = ''Springfield'',
       raw_state = ''IL'', raw_phone = None, raw_website = None, school_type = ''public'',
       grade_levels = ''K-12'', overall_rating = r, academics_rating = r,
       facilities_rating = r, teachers_rating = r, safety_rating = r,
       extracurriculars_rating = r, total_reviews = Num 12, image_url = None \<rparr>"

definition example :: "string \<Rightarrow> string \<Rightarrow> jsval \<Rightarrow> compare_school" where
  "example i n r = mapSchool_compare (raw_example i n r)"


text \<open>The search page as mounted with the query \<open>q\<close> (lines 37-46).\<close>

definition initial_search_page :: "string \<Rightarrow> search_page" where
  "initial_search_page q =
     \<lparr> searchQuery_s = q, schools = [], loading_s = True, showFilters = False,
       filters_s = \<lparr>schoolType_f = [], gradeLevel = [], minRating = 0, sortBy = ''rating''\<rparr> \<rparr>"

text \<open>A search that finds a school, then a search that the backend fails.\<close>

definition found_then_failed :: search_page where
  "found_then_failed =
     searchSchools_end_s (Inl (BackendError ''network''))
       (searchSchools_begin_s
          (searchSchools_end_s (Inr [raw_example ''s1'' ''Abbey School'' (Num 4)])
             (searchSchools_begin_s (initial_search_page ''Abbey''))))"

text \<open>The same two searches with no match in the second.\<close>

definition found_then_empty :: search_page where
  "found_then_empty =
     searchSchools_end_s (Inr [])
       (searchSchools_begin_s
          (searchSchools_end_s (Inr [raw_example ''s1'' ''Abbey School'' (Num 4)])
             (searchSchools_begin_s (initial_search_page ''Abbey''))))"

text \<open>
  Two requests overlap. \<open>a\<close> is typed and its request goes out; \<open>ab\<close> is typed and its
  request goes out too, closing over an empty selection. The first answer arrives and
  shows the school, and the user adds it; the timer that this starts fires on the empty
  query and clears the results. Then the second answer arrives with the same school,
  and the user types again.
\<close>

definition overlapping_run :: "event list" where
  "overlapping_run =
     [Typed ''a'', TimerFired, Typed ''ab'', TimerFired,
      Responded 0 (Inr [raw_example ''s1'' ''Abbey School'' (Num 4)]),
      ClickedResult (example ''s1'' ''Abbey School'' (Num 4)),
      TimerFired,
      Responded 0 (Inr [raw_example ''s1'' ''Abbey School'' (Num 4)]),
      Typed ''a'']"

text \<open>One request at a time: search, add the first result, search again.\<close>

definition sequential_run :: "event list" where
  "sequential_run =
     [Typed ''a'', TimerFired,
      Responded 0 (Inr [raw_example ''s1'' ''Abbey School'' (Num 4),
                        raw_example ''s2'' ''Adams High'' (Num 3)]),
      ClickedResult (example ''s1'' ''Abbey School'' (Num 4)),
      Typed ''a'', TimerFired,
      Responded 0 (Inr [raw_example ''s1'' ''Abbey School'' (Num 4),
                        raw_example ''s2'' ''Adams High'' (Num 3)])]"


section \<open>Comparison set: bound and distinct ids\<close>

lemma list_ex_school_id:
  "list_ex (\<lambda>s. school_id s = i) xs \<longleftrightarrow> i \<in> school_id ` set xs"
  by (induction xs) auto

lemma addSchool_selected:
  "selectedSchools (addSchool school st) =
     (if length (selectedSchools st) < 4 \<and> school_id school \<notin> school_id ` set (selectedSchools st)
      then selectedSchools st @ [school] else selectedSchools st)"
  by (simp add: addSchool_def list_ex_school_id)

lemma addSchool_results:
  "searchResults (addSchool school st) =
     (if length (selectedSchools st) < 4 \<and> school_id school \<notin> school_id ` set (selectedSchools st)
      then filter (\<lambda>s. school_id s \<noteq> school_id school) (searchResults st)
      else searchResults st)"
  by (simp add: addSchool_def list_ex_school_id)

lemma addSchool_noop:
  "4 \<le> length (selectedSchools st) \<or> school_id school \<in> school_id ` set (selectedSchools st)
   \<Longrightarrow> addSchool school st = st"
  by (auto simp: addSchool_def list_ex_school_id)

lemma removeSchool_selected:
  "selectedSchools (removeSchool i st) = filter (\<lambda>s. school_id s \<noteq> i) (selectedSchools st)"
  by (simp add: removeSchool_def)

lemma bounded_distinct_add:
  "bounded_distinct (selectedSchools st) \<Longrightarrow> bounded_distinct (selectedSchools (addSchool school st))"
  by (auto simp: bounded_distinct_def addSchool_selected)

lemma bounded_distinct_remove:
  "bounded_distinct (selectedSchools st) \<Longrightarrow> bounded_distinct (selectedSchools (removeSchool i st))"
  by (auto simp: bounded_distinct_def removeSchool_selected distinct_map_filter
      intro: le_trans [OF length_filter_le])

lemma step_selected:
  assumes "bounded_distinct (selectedSchools (page m))"
  shows "bounded_distinct (selectedSchools (page (step e m)))"
proof (cases e)
  case (ClickedResult school)
  with assms show ?thesis by (simp add: rerender_def bounded_distinct_add)
next
  case (ClickedRemove x)
  with assms show ?thesis by (simp add: rerender_def bounded_distinct_remove)
qed (use assms in \<open>auto simp: rerender_def onChange_def searchSchools_begin_def
      searchSchools_end_def split: option.splits sum.splits\<close>)

lemma run_selected:
  "bounded_distinct (selectedSchools (page m)) \<Longrightarrow> bounded_distinct (selectedSchools (page (run es m)))"
  by (induction es arbitrary: m) (simp_all add: step_selected)

lemma mounted_selected: "bounded_distinct (selectedSchools (page mounted))"
  by (simp add: mounted_def initial_page_def bounded_distinct_def)

lemma example_id [simp]: "school_id (example i n r) = i"
  by (simp add: example_def mapSchool_compare_def raw_example_def)

lemma map_example [simp]: "mapSchool_compare (raw_example i n r) = example i n r"
  by (simp add: example_def)

lemmas run_defs = rerender_def onChange_def addSchool_def removeSchool_def
  searchSchools_begin_def searchSchools_end_def searchSchools_query_def
  mounted_def initial_page_def trim_def isWhiteSpace_def resultArea_def

text \<open>
  Claim C2. Whatever the user does and whatever the backend answers, the comparison set
  of the mounted compare page has at most 4 members and no two with the same id.
  \<open>addSchool\<close> leaves the whole state as it is when the set has 4 members or holds the
  id already, and appends the school at the end otherwise. Adding four schools with
  distinct ids and then a fifth leaves the four, in the order of insertion.
\<close>

theorem comparison_set_invariant:
  "length (selectedSchools (page (run es mounted))) \<le> 4
   \<and> distinct (map school_id (selectedSchools (page (run es mounted))))
   \<and> (4 \<le> length (selectedSchools st)
        \<or> school_id school \<in> school_id ` set (selectedSchools st)
      \<longrightarrow> addSchool school st = st)
   \<and> (length (selectedSchools st) < 4
        \<and> school_id school \<notin> school_id ` set (selectedSchools st)
      \<longrightarrow> selectedSchools (addSchool school st) = selectedSchools st @ [school])
   \<and> (distinct (map school_id [a, b, c, d])
      \<longrightarrow> selectedSchools (page (run [ClickedResult a, ClickedResult b, ClickedResult c,
                                       ClickedResult d, ClickedResult e] mounted))
          = [a, b, c, d])"
proof -
  have inv: "bounded_distinct (selectedSchools (page (run es mounted)))"
    by (rule run_selected [OF mounted_selected])
  have five: "selectedSchools (page (run [ClickedResult a, ClickedResult b, ClickedResult c,
                                       ClickedResult d, ClickedResult e] mounted)) = [a, b, c, d]"
    if "distinct (map school_id [a, b, c, d])"
    using that by (auto simp: rerender_def addSchool_selected mounted_def initial_page_def)
  show ?thesis
    using inv five addSchool_noop [of st school]
    by (simp add: bounded_distinct_def addSchool_selected)
qed

theorem comparison_set_invariant_witness:
  "length (selectedSchools (page (run [ClickedResult (example ''s1'' ''Adams'' (Num 4)),
       ClickedResult (example ''s1'' ''Adams'' (Num 4)), ClickedRemove ''s1'',
       ClickedResult (example ''s2'' ''Baker'' (Num 3))] mounted))) \<le> 4
   \<and> addSchool (example ''s1'' ''Adams'' (Num 4))
        (initial_page\<lparr>selectedSchools := [example ''s1'' ''Adams'' (Num 4)]\<rparr>)
      = initial_page\<lparr>selectedSchools := [example ''s1'' ''Adams'' (Num 4)]\<rparr>
   \<and> selectedSchools (addSchool (example ''s2'' ''Baker'' (Num 3))
        (initial_page\<lparr>selectedSchools := [example ''s1'' ''Adams'' (Num 4)]\<rparr>))
      = [example ''s1'' ''Adams'' (Num 4), example ''s2'' ''Baker'' (Num 3)]
   \<and> selectedSchools (page (run [ClickedResult (example ''s1'' ''Adams'' (Num 4)),
        ClickedResult (example ''s2'' ''Baker'' (Num 3)),
        ClickedResult (example ''s3'' ''Clark'' (Num 5)),
        ClickedResult (example ''s4'' ''Dewey'' (Num 2)),
        ClickedResult (example ''s5'' ''Eaton'' (Num 1))] mounted))
      = [example ''s1'' ''Adams'' (Num 4), example ''s2'' ''Baker'' (Num 3),
         example ''s3'' ''Clark'' (Num 5), example ''s4'' ''Dewey'' (Num 2)]"
  using comparison_set_invariant [of
      "[ClickedResult (example ''s1'' ''Adams'' (Num 4)),
        ClickedResult (example ''s1'' ''Adams'' (Num 4)), ClickedRemove ''s1'',
        ClickedResult (example ''s2'' ''Baker'' (Num 3))]"
      "initial_page\<lparr>selectedSchools := [example ''s1'' ''Adams'' (Num 4)]\<rparr>"
      "example ''s1'' ''Adams'' (Num 4)"
      "example ''s1'' ''Adams'' (Num 4)" "example ''s2'' ''Baker'' (Num 3)"
      "example ''s3'' ''Clark'' (Num 5)" "example ''s4'' ''Dewey'' (Num 2)"
      "example ''s5'' ''Eaton'' (Num 1)"]
    comparison_set_invariant [of "[]"
      "initial_page\<lparr>selectedSchools := [example ''s1'' ''Adams'' (Num 4)]\<rparr>"
      "example ''s2'' ''Baker'' (Num 3)"]
  by (simp add: initial_page_def)


section \<open>Search results of the compare page against the selection\<close>

lemma fresh_add: "results_fresh st \<Longrightarrow> results_fresh (addSchool school st)"
  unfolding results_fresh_def addSchool_selected addSchool_results
  by (simp split: if_splits)

lemma fresh_remove: "results_fresh st \<Longrightarrow> results_fresh (removeSchool i st)"
  unfolding results_fresh_def by (simp add: removeSchool_def image_iff)

lemma fresh_begin: "results_fresh st \<Longrightarrow> results_fresh (searchSchools_begin rs st)"
  unfolding results_fresh_def by (simp add: searchSchools_begin_def)

lemma end_filtered:
  "s \<in> set (searchResults (searchSchools_end rs (Inr results) st))
   \<Longrightarrow> school_id s \<notin> school_id ` set (selectedSchools rs)"
  by (simp add: searchSchools_end_def list_ex_school_id)

lemma end_selected: "selectedSchools (searchSchools_end rs resp st) = selectedSchools st"
  by (cases resp) (simp_all add: searchSchools_end_def)

lemma end_failed: "searchResults (searchSchools_end rs (Inl e) st) = searchResults st"
  by (simp add: searchSchools_end_def)

lemma fresh_end:
  assumes "results_fresh st"
    and "school_id ` set (selectedSchools st) \<subseteq> school_id ` set (selectedSchools rs)"
  shows "results_fresh (searchSchools_end rs resp st)"
proof (cases resp)
  case (Inl e)
  with assms(1) show ?thesis by (simp add: results_fresh_def end_selected end_failed)
next
  case (Inr results)
  show ?thesis
    unfolding results_fresh_def end_selected Inr
    using end_filtered [of _ rs results st] assms(2) by blast
qed

lemma fenced_tail: "fenced (e # es) m \<Longrightarrow> fenced es (step e m)"
  by (cases e) (simp_all del: step.simps)

lemma fenced_step:
  assumes "fenced (e # es) m" and "results_fresh (page m)"
  shows "results_fresh (page (step e m))"
proof (cases e)
  case (Typed x)
  with assms(2) show ?thesis by (simp add: rerender_def onChange_def results_fresh_def)
next
  case Focused
  with assms(2) show ?thesis by (simp add: rerender_def results_fresh_def)
next
  case ClickedOutside
  with assms(2) show ?thesis by (simp add: rerender_def results_fresh_def)
next
  case (ClickedResult x)
  with assms(2) show ?thesis by (simp add: rerender_def fresh_add)
next
  case (ClickedRemove x)
  with assms(2) show ?thesis by (simp add: rerender_def fresh_remove)
next
  case TimerFired
  with assms(2) show ?thesis by (simp add: fresh_begin split: option.splits)
next
  case (Responded k resp)
  with assms(1) have k: "k < length (inflight m)"
    and all: "list_all (\<lambda>s. list_ex (\<lambda>c. school_id c = school_id s)
                 (selectedSchools (inflight m ! k))) (selectedSchools (page m))"
    by (simp_all del: step.simps)
  from all have sub: "school_id ` set (selectedSchools (page m))
               \<subseteq> school_id ` set (selectedSchools (inflight m ! k))"
    unfolding list_all_iff list_ex_school_id by blast
  from fresh_end [OF assms(2) sub] k Responded show ?thesis by simp
qed

lemma fenced_run:
  "fenced es m \<Longrightarrow> results_fresh (page m) \<Longrightarrow> results_fresh (page (run es m))"
proof (induction es arbitrary: m)
  case Nil
  then show ?case by simp
next
  case (Cons e es)
  from Cons.prems have "results_fresh (page (step e m))" by (rule fenced_step)
  moreover from Cons.prems(1) have "fenced es (step e m)" by (rule fenced_tail)
  ultimately show ?case using Cons.IH by simp
qed

lemma shown_subset: "set (shown (resultArea st)) \<subseteq> set (searchResults st)"
  by (simp add: resultArea_def)

lemma mounted_fresh: "results_fresh (page mounted)"
  by (simp add: results_fresh_def mounted_def initial_page_def)

text \<open>
  Claim C10, as stated, fails: the result list of the compare page can show a school
  that is in the comparison set. In \<open>overlapping_run\<close> the user clicks the school while it
  is shown (after the first five events), and at the end of the run the school is both
  selected and shown: the second response was filtered against the selection that its
  request had closed over, which was empty.
\<close>

theorem visible_result_selected_counterexample:
  "resultArea (page (run (take 5 overlapping_run) mounted))
     = Results [example ''s1'' ''Abbey School'' (Num 4)]
   \<and> selectedSchools (page (run overlapping_run mounted))
     = [example ''s1'' ''Abbey School'' (Num 4)]
   \<and> resultArea (page (run overlapping_run mounted))
     = Results [example ''s1'' ''Abbey School'' (Num 4)]"
  by (simp add: overlapping_run_def run_defs)

text \<open>
  Claim C10, amended. In a fenced run (no school is added between the scheduling of a
  search and the arrival of its response) the result list never shows a school whose id
  is in the comparison set. A response is filtered against the selection that its
  request closed over, and a school that \<open>addSchool\<close> adds is removed from the stored
  results in the same update.
\<close>

theorem visible_results_not_selected:
  "(fenced es mounted \<and> school \<in> set (shown (resultArea (page (run es mounted))))
      \<longrightarrow> school_id school \<notin> school_id ` set (selectedSchools (page (run es mounted))))
   \<and> (s \<in> set (searchResults (searchSchools_end rs (Inr results) st))
      \<longrightarrow> school_id s \<notin> school_id ` set (selectedSchools rs))
   \<and> (length (selectedSchools st) < 4
        \<and> school_id added \<notin> school_id ` set (selectedSchools st)
      \<longrightarrow> selectedSchools (addSchool added st) = selectedSchools st @ [added]
          \<and> school_id added \<notin> school_id ` set (searchResults (addSchool added st)))"
proof -
  have "results_fresh (page (run es mounted))" if "fenced es mounted"
    using that mounted_fresh by (rule fenced_run)
  then have run: "school_id school \<notin> school_id ` set (selectedSchools (page (run es mounted)))"
    if "fenced es mounted" "school \<in> set (shown (resultArea (page (run es mounted))))"
    using that shown_subset [of "page (run es mounted)"] unfolding results_fresh_def by blast
  have add: "school_id added \<notin> school_id ` set (searchResults (addSchool added st))"
    if "length (selectedSchools st) < 4" "school_id added \<notin> school_id ` set (selectedSchools st)"
    using that by (auto simp: addSchool_results)
  show ?thesis
    using run end_filtered [of s rs results st] add by (simp add: addSchool_selected)
qed

theorem visible_results_not_selected_witness:
  "fenced sequential_run mounted
   \<and> example ''s2'' ''Adams High'' (Num 3)
       \<in> set (shown (resultArea (page (run sequential_run mounted))))
   \<and> school_id (example ''s2'' ''Adams High'' (Num 3))
       \<notin> school_id ` set (selectedSchools (page (run sequential_run mounted)))
   \<and> example ''s2'' ''Adams High'' (Num 3)
       \<in> set (searchResults (searchSchools_end
             (initial_page\<lparr>selectedSchools := [example ''s1'' ''Abbey School'' (Num 4)]\<rparr>)
             (Inr [raw_example ''s1'' ''Abbey School'' (Num 4),
                   raw_example ''s2'' ''Adams High'' (Num 3)])
             (initial_page\<lparr>searchResults := [example ''s2'' ''Adams High'' (Num 3)]\<rparr>)))
   \<and> selectedSchools (addSchool (example ''s2'' ''Adams High'' (Num 3))
         (initial_page\<lparr>searchResults := [example ''s2'' ''Adams High'' (Num 3)]\<rparr>))
       = [example ''s2'' ''Adams High'' (Num 3)]
   \<and> school_id (example ''s2'' ''Adams High'' (Num 3))
       \<notin> school_id ` set (searchResults (addSchool (example ''s2'' ''Adams High'' (Num 3))
             (initial_page\<lparr>searchResults := [example ''s2'' ''Adams High'' (Num 3)]\<rparr>)))"
  using visible_results_not_selected [of sequential_run
      "example ''s2'' ''Adams High'' (Num 3)"
      "example ''s2'' ''Adams High'' (Num 3)"
      "initial_page\<lparr>selectedSchools := [example ''s1'' ''Abbey School'' (Num 4)]\<rparr>"
      "[raw_example ''s1'' ''Abbey School'' (Num 4), raw_example ''s2'' ''Adams High'' (Num 3)]"
      "initial_page\<lparr>searchResults := [example ''s2'' ''Adams High'' (Num 3)]\<rparr>"
      "example ''s2'' ''Adams High'' (Num 3)"]
  by (simp add: sequential_run_def run_defs)


section \<open>Highest rating of a category and the highlighted cells\<close>

lemma max2_nums [simp]: "max2 (Num x) (Num y) = Num (max x y)"
  by (simp add: max2_def)

lemma foldl_max2_nums: "foldl max2 (Num a) (map Num rs) = Num (fold max rs a)"
  by (induction rs arbitrary: a) (simp_all add: max.commute)

lemma mathMax_nums: "mathMax (Num a) (map Num rs) = Num (Max (set (a # rs)))"
  by (simp only: mathMax_def toNumber.simps foldl_max2_nums Max.set_eq_fold)

lemma getHighestRating_nums:
  assumes "selected \<noteq> []" and "map (lookup c) selected = map Num rs"
  shows "getHighestRating c selected = Num (Max (set rs))"
proof (cases selected)
  case Nil
  with assms(1) show ?thesis by simp
next
  case (Cons s ss)
  with assms(2) obtain r rs' where rs: "rs = r # rs'" and r: "lookup c s = Num r"
    and rest: "map (lookup c) ss = map Num rs'"
    by (cases rs) auto
  show ?thesis
    unfolding Cons rs getHighestRating.simps r rest by (rule mathMax_nums)
qed

lemma example_ratings [simp]: "lookup c (example i n r) = r"
  by (cases c) (simp_all add: example_def mapSchool_compare_def raw_example_def)

text \<open>
  Claim C4. \<open>getHighestRating\<close> returns 0 for the empty comparison set. For a non-empty
  set whose fields of the category are numbers (as \<open>interface School\<close> declares them) it
  returns the maximum of these numbers. Over the academics ratings 4.0, 4.5, 4.5 it
  returns 4.5.
\<close>

theorem highest_rating_is_maximum:
  "getHighestRating c [] = Num 0
   \<and> (selected \<noteq> [] \<and> map (lookup c) selected = map Num rs
      \<longrightarrow> getHighestRating c selected = Num (Max (set rs)))
   \<and> getHighestRating AcademicsRating
        [example ''s1'' ''Adams'' (Num 4), example ''s2'' ''Baker'' (Num (9 / 2)),
         example ''s3'' ''Clark'' (Num (9 / 2))] = Num (9 / 2)"
proof -
  have "getHighestRating AcademicsRating
        [example ''s1'' ''Adams'' (Num 4), example ''s2'' ''Baker'' (Num (9 / 2)),
         example ''s3'' ''Clark'' (Num (9 / 2))] = Num (9 / 2)"
    by (simp add: mathMax_def)
  then show ?thesis using getHighestRating_nums [of selected c rs] by simp
qed

theorem highest_rating_is_maximum_witness:
  "getHighestRating TeachersRating
     [example ''s1'' ''Adams'' (Num 3), example ''s2'' ''Baker'' (Num (7 / 2))] = Num (7 / 2)"
  using highest_rating_is_maximum [of TeachersRating
      "[example ''s1'' ''Adams'' (Num 3), example ''s2'' ''Baker'' (Num (7 / 2))]"
      "[3, 7 / 2]"]
  by simp

lemma isHighest_nums:
  assumes "map (lookup c) selected = map Num rs" and "school \<in> set selected"
  shows "isHighest c selected school \<longleftrightarrow> lookup c school = Num (Max (set rs))"
proof -
  from assms(2) have ne: "selected \<noteq> []" by auto
  from assms(2) have "lookup c school \<in> set (map (lookup c) selected)" by simp
  with assms(1) obtain r where r: "lookup c school = Num r" by auto
  show ?thesis
    unfolding isHighest_def getHighestRating_nums [OF ne assms(1)] r by simp
qed

lemma getRatingColor_green:
  "getRatingColor v = ''text-green-600'' \<longleftrightarrow> greaterEq v (Num (9 / 2))"
  by (simp add: getRatingColor_def)

lemma cellClass_green:
  "cellClass c selected school = ''text-green-600''
     \<longleftrightarrow> isHighest c selected school \<or> greaterEq (lookup c school) (Num (9 / 2))"
  by (simp add: cellClass_def getRatingColor_green)

text \<open>
  Claim C5, as stated, fails. Beside a school rated 4.8, a school rated 4.6 is below the
  maximum, and its cell has the class \<open>text-green-600\<close> all the same, as the cell of the
  best school has: \<open>getRatingColor\<close> gives that class to every rating of 4.5 or more.
  And for a comparison set of one school no table is rendered, so nothing is
  highlighted, although the school's rating is the maximum.
\<close>

theorem highlight_below_maximum_counterexample:
  "getHighestRating OverallRating
       [example ''s1'' ''Adams'' (Num (23 / 5)), example ''s2'' ''Baker'' (Num (24 / 5))]
     = Num (24 / 5)
   \<and> lookup OverallRating (example ''s1'' ''Adams'' (Num (23 / 5))) = Num (23 / 5)
   \<and> ratingRow OverallRating
       [example ''s1'' ''Adams'' (Num (23 / 5)), example ''s2'' ''Baker'' (Num (24 / 5))]
     = Some [''text-green-600'', ''text-green-600'']
   \<and> ratingRow OverallRating [example ''s2'' ''Baker'' (Num (24 / 5))] = None"
  by (simp add: ratingRow_def isHighest_def cellClass_def mathMax_def getRatingColor_def
      greaterEq_def)

text \<open>
  Claim C5, amended. The rating rows are rendered for a comparison set of more than one
  school. In a set whose fields of the category are numbers, the test that selects the
  best-cell branch holds if and only if the school's rating equals the maximum over the
  set; it is equality with the maximum, not uniqueness, so every school that shares the
  rating of a school at the maximum passes it too. A cell has the class
  \<open>text-green-600\<close> if and only if its rating equals the maximum or is at least 4.5; a
  cell below the maximum has the class that \<open>getRatingColor\<close> gives its rating. Of the
  academics ratings 4.0, 4.5, 4.5 the two 4.5 cells pass the test, and the row is
  \<open>text-green-500\<close>, \<open>text-green-600\<close>, \<open>text-green-600\<close>.
\<close>

theorem cell_highlight_characterised:
  "(map (lookup c) selected = map Num rs \<and> school \<in> set selected
      \<longrightarrow> (isHighest c selected school \<longleftrightarrow> lookup c school = Num (Max (set rs)))
          \<and> (cellClass c selected school = ''text-green-600''
               \<longleftrightarrow> lookup c school = Num (Max (set rs))
                   \<or> greaterEq (lookup c school) (Num (9 / 2)))
          \<and> (lookup c school \<noteq> Num (Max (set rs))
               \<longrightarrow> cellClass c selected school = getRatingColor (lookup c school)))
   \<and> (map (lookup c) selected = map Num rs \<and> school \<in> set selected \<and> other \<in> set selected
        \<and> isHighest c selected school \<and> lookup c other = lookup c school
      \<longrightarrow> isHighest c selected other)
   \<and> ratingRow c selected
       = (if 1 < length selected then Some (map (cellClass c selected) selected) else None)
   \<and> map (isHighest AcademicsRating
             [example ''s1'' ''Adams'' (Num 4), example ''s2'' ''Baker'' (Num (9 / 2)),
              example ''s3'' ''Clark'' (Num (9 / 2))])
        [example ''s1'' ''Adams'' (Num 4), example ''s2'' ''Baker'' (Num (9 / 2)),
         example ''s3'' ''Clark'' (Num (9 / 2))]
      = [False, True, True]
   \<and> ratingRow AcademicsRating
        [example ''s1'' ''Adams'' (Num 4), example ''s2'' ''Baker'' (Num (9 / 2)),
         example ''s3'' ''Clark'' (Num (9 / 2))]
      = Some [''text-green-500'', ''text-green-600'', ''text-green-600'']"
proof -
  have ex: "map (isHighest AcademicsRating
             [example ''s1'' ''Adams'' (Num 4), example ''s2'' ''Baker'' (Num (9 / 2)),
              example ''s3'' ''Clark'' (Num (9 / 2))])
        [example ''s1'' ''Adams'' (Num 4), example ''s2'' ''Baker'' (Num (9 / 2)),
         example ''s3'' ''Clark'' (Num (9 / 2))]
      = [False, True, True]"
    by (simp add: isHighest_def mathMax_def)
  have row: "ratingRow AcademicsRating
        [example ''s1'' ''Adams'' (Num 4), example ''s2'' ''Baker'' (Num (9 / 2)),
         example ''s3'' ''Clark'' (Num (9 / 2))]
      = Some [''text-green-500'', ''text-green-600'', ''text-green-600'']"
    by (simp add: ratingRow_def isHighest_def cellClass_def mathMax_def getRatingColor_def
        greaterEq_def)
  have rows: "ratingRow c selected
       = (if 1 < length selected then Some (map (cellClass c selected) selected) else None)"
    by (simp add: ratingRow_def)
  have iff: "isHighest c selected school \<longleftrightarrow> lookup c school = Num (Max (set rs))"
    if "map (lookup c) selected = map Num rs" "school \<in> set selected"
    using that by (rule isHighest_nums)
  have ties: "isHighest c selected other"
    if "map (lookup c) selected = map Num rs" "school \<in> set selected" "other \<in> set selected"
      "isHighest c selected school" "lookup c other = lookup c school"
    using that isHighest_nums [of c selected rs school] isHighest_nums [of c selected rs other]
    by simp
  have green: "cellClass c selected school = ''text-green-600''
      \<longleftrightarrow> lookup c school = Num (Max (set rs)) \<or> greaterEq (lookup c school) (Num (9 / 2))"
    if "map (lookup c) selected = map Num rs" "school \<in> set selected"
    using iff [OF that] by (simp add: cellClass_green)
  have below: "cellClass c selected school = getRatingColor (lookup c school)"
    if "map (lookup c) selected = map Num rs" "school \<in> set selected"
      "lookup c school \<noteq> Num (Max (set rs))"
    using iff [OF that(1,2)] that(3) by (simp add: cellClass_def)
  from iff green below ties ex row rows show ?thesis by blast
qed

theorem cell_highlight_characterised_witness:
  "isHighest TeachersRating
     [example ''s1'' ''Adams'' (Num 3), example ''s2'' ''Baker'' (Num (7 / 2)),
      example ''s3'' ''Clark'' (Num (7 / 2))] (example ''s2'' ''Baker'' (Num (7 / 2)))
   \<and> cellClass TeachersRating
     [example ''s1'' ''Adams'' (Num 3), example ''s2'' ''Baker'' (Num (7 / 2)),
      example ''s3'' ''Clark'' (Num (7 / 2))] (example ''s2'' ''Baker'' (Num (7 / 2)))
     = ''text-green-600''
   \<and> isHighest TeachersRating
     [example ''s1'' ''Adams'' (Num 3), example ''s2'' ''Baker'' (Num (7 / 2)),
      example ''s3'' ''Clark'' (Num (7 / 2))] (example ''s3'' ''Clark'' (Num (7 / 2)))
   \<and> cellClass TeachersRating
     [example ''s1'' ''Adams'' (Num 3), example ''s2'' ''Baker'' (Num (7 / 2)),
      example ''s3'' ''Clark'' (Num (7 / 2))] (example ''s1'' ''Adams'' (Num 3))
     = ''text-orange-500''"
  using cell_highlight_characterised [of TeachersRating
      "[example ''s1'' ''Adams'' (Num 3), example ''s2'' ''Baker'' (Num (7 / 2)),
        example ''s3'' ''Clark'' (Num (7 / 2))]"
      "[3, 7 / 2, 7 / 2]"
      "example ''s2'' ''Baker'' (Num (7 / 2))"
      "example ''s3'' ''Clark'' (Num (7 / 2))"]
    cell_highlight_characterised [of TeachersRating
      "[example ''s1'' ''Adams'' (Num 3), example ''s2'' ''Baker'' (Num (7 / 2)),
        example ''s3'' ''Clark'' (Num (7 / 2))]"
      "[3, 7 / 2, 7 / 2]"
      "example ''s1'' ''Adams'' (Num 3)"
      "example ''s1'' ''Adams'' (Num 3)"]
  by (simp add: getRatingColor_def greaterEq_def)

text \<open>
  A rating that is \<open>null\<close> counts as 0 in the maximum; one that is \<open>undefined\<close> makes the
  maximum \<open>NaN\<close>.
\<close>

lemma highest_rating_of_absent:
  "getHighestRating OverallRating
     [example ''s1'' ''Adams'' Null, example ''s2'' ''Baker'' (Num 3)] = Num 3
   \<and> getHighestRating OverallRating
     [example ''s1'' ''Adams'' Undefined, example ''s2'' ''Baker'' (Num 3)] = NaN"
  by (simp add: mathMax_def max2_def)


section \<open>Star pattern\<close>

lemma less_js_nums [simp]: "less_js (Num x) (Num y) = (x < y)"
  by (simp add: less_js_def)

lemma mathFloor_num [simp]: "mathFloor (Num r) = Num (of_int \<lfloor>r\<rfloor>)"
  by (simp add: mathFloor_def)

lemma renderStars_length: "length (renderStars v) = 5"
  by (simp add: renderStars_def)

lemma star_at:
  assumes "i < 5"
  shows "renderStars (Num r) ! i =
    (if int i < \<lfloor>r\<rfloor> then Full else if rat_of_nat i < r then Half else Empty)"
proof -
  have "rat_of_nat i < rat_of_int \<lfloor>r\<rfloor> \<longleftrightarrow> int i < \<lfloor>r\<rfloor>"
    by (metis of_int_less_iff of_int_of_nat_eq)
  with assms show ?thesis by (simp add: renderStars_def)
qed

lemma renderStars_s_num: "renderStars_s (Num r) = renderStars (Num r)"
  by (simp add: renderStars_s_def renderStars_def orElse_def)

lemma star_clamped:
  assumes "i < 5"
  shows "renderStars (Num (max 0 (min 5 r))) ! i = renderStars (Num r) ! i"
proof -
  consider "r < 0" | "0 \<le> r" "r \<le> 5" | "5 < r" by linarith
  then show ?thesis
  proof cases
    case 1
    then have "\<lfloor>r\<rfloor> < 0" by (simp add: floor_less_iff)
    then have "\<not> int i < \<lfloor>r\<rfloor>" by linarith
    with 1 assms show ?thesis by (simp add: star_at max_def min_def)
  next
    case 2
    then show ?thesis by (simp add: max_def min_def)
  next
    case 3
    then have "5 \<le> \<lfloor>r\<rfloor>" by (simp add: le_floor_iff)
    with assms have "int i < \<lfloor>r\<rfloor>" by linarith
    with 3 assms show ?thesis by (simp add: star_at max_def min_def)
  qed
qed

lemma renderStars_clamped: "renderStars (Num (max 0 (min 5 r))) = renderStars (Num r)"
  by (rule nth_equalityI) (simp_all add: renderStars_length star_clamped)

lemma upt_5: "[0..<5] = [0, 1, 2, 3, 4]"
  by (simp add: upt_rec)

text \<open>
  Claim C7. For every number \<open>r\<close>, \<open>renderStars\<close> yields exactly 5 glyphs; glyph \<open>i\<close> is
  full if \<open>i < floor r\<close>, half if \<open>floor r \<le> i < r\<close>, empty otherwise. The search page's
  variant yields the same. 3.5 gives full, full, full, half, empty; 0 gives five empty;
  5 gives five full. A number outside [0, 5] renders as the number clamped to [0, 5],
  and \<open>null\<close> and \<open>undefined\<close> render as 0: no input makes the function fail.
\<close>

theorem star_pattern:
  "length (renderStars (Num r)) = 5
   \<and> (\<forall>i<5. renderStars (Num r) ! i =
        (if int i < \<lfloor>r\<rfloor> then Full
         else if \<lfloor>r\<rfloor> \<le> int i \<and> rat_of_nat i < r then Half
         else Empty))
   \<and> renderStars_s (Num r) = renderStars (Num r)
   \<and> renderStars (Num (7 / 2)) = [Full, Full, Full, Half, Empty]
   \<and> renderStars (Num 0) = [Empty, Empty, Empty, Empty, Empty]
   \<and> renderStars (Num 5) = [Full, Full, Full, Full, Full]
   \<and> renderStars (Num r) = renderStars (Num (max 0 (min 5 r)))
   \<and> renderStars Null = renderStars (Num 0)
   \<and> renderStars Undefined = renderStars (Num 0)"
proof -
  have ex: "renderStars (Num (7 / 2)) = [Full, Full, Full, Half, Empty]"
    "renderStars (Num 0) = [Empty, Empty, Empty, Empty, Empty]"
    "renderStars (Num 5) = [Full, Full, Full, Full, Full]"
    by (simp_all add: renderStars_def upt_5)
  have absent: "renderStars Null = renderStars (Num 0)" "renderStars Undefined = renderStars (Num 0)"
    by (simp_all add: renderStars_def upt_5 less_js_def mathFloor_def)
  have at: "\<forall>i<5. renderStars (Num r) ! i =
        (if int i < \<lfloor>r\<rfloor> then Full
         else if \<lfloor>r\<rfloor> \<le> int i \<and> rat_of_nat i < r then Half
         else Empty)"
    by (auto simp: star_at)
  from ex absent at show ?thesis
    by (simp add: renderStars_length renderStars_s_num renderStars_clamped)
qed

theorem star_pattern_witness:
  "renderStars (Num (13 / 5)) ! 2 = Half
   \<and> renderStars (Num 7) = [Full, Full, Full, Full, Full]
   \<and> renderStars (Num (- 1)) = [Empty, Empty, Empty, Empty, Empty]"
  using star_pattern [of "13 / 5"] star_pattern [of 7] star_pattern [of "- 1"]
  by simp


section \<open>Query builder\<close>

text \<open>
  Claim C1. The \<open>where\<close> object of the search page has the key \<open>OR\<close> (name, city or
  address contains the text) exactly when the trimmed text is not empty, the key
  \<open>school_type\<close> (membership in the selected types) exactly when a type is selected,
  the key \<open>grade_levels\<close> (contains the level) exactly when a level is selected, the key
  \<open>overall_rating\<close> (at least \<open>minRating\<close>) exactly when \<open>minRating > 0\<close>, and no other
  key; the backend takes the keys of the object as a conjunction. With every field at
  its default the request carries no filter. The text Lincoln with \<open>minRating = 4\<close> and
  \<open>sortBy = name\<close> gives the disjunction on Lincoln and \<open>overall_rating >= 4\<close>, ordered
  by name ascending, capped at 50.
\<close>

theorem where_clause_conjunction:
  "map_of (whereClause q f) ''OR'' =
     (if trim q \<noteq> [] then Some (AnyOf [(''name'', Contains q), (''city'', Contains q),
                                        (''address'', Contains q)]) else None)
   \<and> map_of (whereClause q f) ''school_type'' =
     (if schoolType_f f \<noteq> [] then Some (Cond (In (schoolType_f f))) else None)
   \<and> map_of (whereClause q f) ''grade_levels'' =
     (if gradeLevel f \<noteq> [] then Some (Cond (Contains (gradeLevel f))) else None)
   \<and> map_of (whereClause q f) ''overall_rating'' =
     (if minRating f > 0 then Some (Cond (Gte (minRating f))) else None)
   \<and> set (map fst (whereClause q f))
       \<subseteq> {''OR'', ''school_type'', ''grade_levels'', ''overall_rating''}
   \<and> distinct (map fst (whereClause q f))
   \<and> whereArg (searchRequest q f) =
     (if trim q = [] \<and> schoolType_f f = [] \<and> gradeLevel f = [] \<and> minRating f \<le> 0
      then None else Some (whereClause q f))
   \<and> searchRequest ''Lincoln''
         \<lparr>schoolType_f = [], gradeLevel = [], minRating = 4, sortBy = ''name''\<rparr>
       = \<lparr>whereArg = Some [(''OR'', AnyOf [(''name'', Contains ''Lincoln''),
                                           (''city'', Contains ''Lincoln''),
                                           (''address'', Contains ''Lincoln'')]),
                           (''overall_rating'', Cond (Gte 4))],
          orderBy = (''name'', Asc), limit = 50\<rparr>
   \<and> searchRequest [] \<lparr>schoolType_f = [], gradeLevel = [], minRating = 0, sortBy = ''rating''\<rparr>
       = \<lparr>whereArg = None, orderBy = (''overall_rating'', Desc), limit = 50\<rparr>"
proof -
  have keys: "map_of (whereClause q f) ''OR'' =
     (if trim q \<noteq> [] then Some (AnyOf [(''name'', Contains q), (''city'', Contains q),
                                        (''address'', Contains q)]) else None)"
    "map_of (whereClause q f) ''school_type'' =
     (if schoolType_f f \<noteq> [] then Some (Cond (In (schoolType_f f))) else None)"
    "map_of (whereClause q f) ''grade_levels'' =
     (if gradeLevel f \<noteq> [] then Some (Cond (Contains (gradeLevel f))) else None)"
    "map_of (whereClause q f) ''overall_rating'' =
     (if minRating f > 0 then Some (Cond (Gte (minRating f))) else None)"
    by (simp_all add: whereClause_def)
  have names: "set (map fst (whereClause q f))
       \<subseteq> {''OR'', ''school_type'', ''grade_levels'', ''overall_rating''}"
    "distinct (map fst (whereClause q f))"
    by (auto simp: whereClause_def)
  have arg: "whereArg (searchRequest q f) =
     (if trim q = [] \<and> schoolType_f f = [] \<and> gradeLevel f = [] \<and> minRating f \<le> 0
      then None else Some (whereClause q f))"
    by (simp add: searchRequest_def whereClause_def not_less)
  have ex: "searchRequest ''Lincoln''
         \<lparr>schoolType_f = [], gradeLevel = [], minRating = 4, sortBy = ''name''\<rparr>
       = \<lparr>whereArg = Some [(''OR'', AnyOf [(''name'', Contains ''Lincoln''),
                                           (''city'', Contains ''Lincoln''),
                                           (''address'', Contains ''Lincoln'')]),
                           (''overall_rating'', Cond (Gte 4))],
          orderBy = (''name'', Asc), limit = 50\<rparr>"
    "searchRequest [] \<lparr>schoolType_f = [], gradeLevel = [], minRating = 0, sortBy = ''rating''\<rparr>
       = \<lparr>whereArg = None, orderBy = (''overall_rating'', Desc), limit = 50\<rparr>"
    by (simp_all add: searchRequest_def whereClause_def sortOrder_def trim_def isWhiteSpace_def)
  from keys names arg ex show ?thesis by blast
qed

text \<open>
  Claim C6. The sort mapping is total: \<open>rating\<close> gives \<open>overall_rating\<close> descending,
  \<open>reviews\<close> gives \<open>total_reviews\<close> descending, \<open>name\<close> gives \<open>name\<close> ascending, and every
  other value gives \<open>overall_rating\<close> descending. It is the order of every request of
  the search page.
\<close>

theorem sort_mapping_total:
  "sortOrder ''rating'' = (''overall_rating'', Desc)
   \<and> sortOrder ''reviews'' = (''total_reviews'', Desc)
   \<and> sortOrder ''name'' = (''name'', Asc)
   \<and> (s \<notin> {''rating'', ''reviews'', ''name''} \<longrightarrow> sortOrder s = (''overall_rating'', Desc))
   \<and> orderBy (searchRequest q f) = sortOrder (sortBy f)"
  by (simp add: sortOrder_def searchRequest_def)

theorem sort_mapping_total_witness:
  "sortOrder ''distance'' = (''overall_rating'', Desc)"
  using sort_mapping_total [of "''distance''"] by simp

text \<open>
  Claim C9. Every request of the search page has the limit 50, and every request that
  the compare page's search box issues has the limit 10 (it issues one exactly when the
  trimmed query is not empty).
\<close>

theorem result_caps:
  "limit (searchRequest q f) = 50
   \<and> limit (searchSchools_query_s st) = 50
   \<and> (searchSchools_query rs = Some spec \<longrightarrow> limit spec = 10)
   \<and> (searchSchools_query rs = None \<longleftrightarrow> trim (searchQuery rs) = [])"
  by (auto simp: searchRequest_def searchSchools_query_s_def searchSchools_query_def)

theorem result_caps_witness:
  "searchSchools_query (initial_page\<lparr>searchQuery := ''Lincoln''\<rparr>)
     = Some \<lparr> whereArg = Some [(''OR'', AnyOf [(''name'', Contains ''Lincoln''),
                                               (''city'', Contains ''Lincoln''),
                                               (''address'', Contains ''Lincoln'')])],
              orderBy = (''overall_rating'', Desc), limit = 10 \<rparr>
   \<and> limit \<lparr> whereArg = Some [(''OR'', AnyOf [(''name'', Contains ''Lincoln''),
                                              (''city'', Contains ''Lincoln''),
                                              (''address'', Contains ''Lincoln'')])],
             orderBy = (''overall_rating'', Desc), limit = 10 \<rparr> = 10"
  using result_caps [where rs = "initial_page\<lparr>searchQuery := ''Lincoln''\<rparr>"
      and spec = "\<lparr> whereArg = Some [(''OR'', AnyOf [(''name'', Contains ''Lincoln''),
                                                     (''city'', Contains ''Lincoln''),
                                                     (''address'', Contains ''Lincoln'')])],
                    orderBy = (''overall_rating'', Desc), limit = 10 \<rparr>"]
  by (simp add: searchSchools_query_def initial_page_def trim_def isWhiteSpace_def)


section \<open>A failed request\<close>

text \<open>
  Claim C8, as stated, fails: after a search that found a school, a failed search leaves
  that school on display, where a search without matches shows that no school was
  found.
\<close>

theorem failed_search_keeps_results_counterexample:
  "resultArea_s found_then_failed
     = Results [mapSchool_search (raw_example ''s1'' ''Abbey School'' (Num 4))]
   \<and> resultArea_s found_then_empty = NoSchoolsFound"
  by (simp add: found_then_failed_def found_then_empty_def searchSchools_end_s_def
      searchSchools_begin_s_def initial_search_page_def resultArea_s_def)

text \<open>
  Claim C8, amended. A failure of the backend is caught and nothing of it reaches the
  page: only the loading flag is cleared, on the search page and on the compare page.
  The result list stays as it was before the request, so the page shows the earlier
  results, and shows that no school was found only if the list was empty before (as on
  the first load). A response with zero matches empties the list.
\<close>

theorem failed_search_keeps_results:
  "searchSchools_end_s (Inl e) st = st\<lparr>loading_s := False\<rparr>
   \<and> resultArea_s (searchSchools_end_s (Inl e) st)
       = (if schools st = [] then NoSchoolsFound else Results (schools st))
   \<and> resultArea_s (searchSchools_end_s (Inr []) st) = NoSchoolsFound
   \<and> searchSchools_end rs (Inl e) cst = cst\<lparr>loading := False\<rparr>
   \<and> searchResults (searchSchools_end rs (Inl e) cst) = searchResults cst
   \<and> searchResults (searchSchools_end rs (Inr []) cst) = []"
  by (simp add: searchSchools_end_s_def searchSchools_end_def resultArea_s_def)


section \<open>Result mappers and absent ratings\<close>

text \<open>The search page's mapper turns every falsy rating into 0.\<close>

lemma search_mapper_defaults:
  "overallRating (mapSchool_search r) = (case overall_rating r of Num x \<Rightarrow> Num x | _ \<Rightarrow> Num 0)
   \<and> totalReviews (mapSchool_search r) = (case total_reviews r of Num x \<Rightarrow> Num x | _ \<Rightarrow> Num 0)"
  by (auto simp: mapSchool_search_def orElse_def split: jsval.splits)

text \<open>
  Claim C3 does not hold of the code. For a record whose ratings are \<open>null\<close>, the mappers
  of the compare page and of the home page copy the \<open>null\<close>, where the mapper of the
  search page writes 0.
\<close>

theorem compare_mapper_keeps_null:
  "overallRating (mapSchool_compare (raw_example ''s1'' ''Abbey School'' Null)) = Null
   \<and> academicsRating (mapSchool_compare (raw_example ''s1'' ''Abbey School'' Null)) = Null
   \<and> overallRating (mapSchool_home (raw_example ''s1'' ''Abbey School'' Null)) = Null
   \<and> overallRating (mapSchool_search (raw_example ''s1'' ''Abbey School'' Null)) = Num 0"
  by (simp add: mapSchool_compare_def mapSchool_home_def mapSchool_search_def raw_example_def
      orElse_def)

end
